theory Spec2Isabelle
  imports Main "HOL-Library.AList" "HOL-Library.Multiset" "HOL-Library.Product_Lexorder"
begin

section \<open>Exceptions\<close>

text \<open>
  Every exception that the modelled code can raise is a value. A method that executes one
  statement returns \<open>error + 'a\<close>: the engine undoes a failing statement, so the caller of
  a raising method still holds the store as it was before the call.

  The statements are built by string interpolation. \<open>Literal_Broken\<close> stands for the case
  that an interpolated string holds the quote character of the literal it is put into: the
  text sent to the engine is then not the statement the method means, and what the engine
  does with it (a syntax error or another statement) is outside this model.
  Names of tables, views and columns are interpolated bare; the model takes them to be
  single identifier tokens, spelled in one letter case throughout.
\<close>

datatype error =
    KeyError
  | TypeError
  | IOError
  | DatabaseException
  | OperationalError
  | IntegrityError
  | Literal_Broken

definition then_do :: "error + 'a \<Rightarrow> ('a \<Rightarrow> error + 'b) \<Rightarrow> error + 'b" where
  "then_do r f = (case r of Inl e \<Rightarrow> Inl e | Inr x \<Rightarrow> f x)"

definition dq_free :: "string \<Rightarrow> bool" where
  "dq_free s = (CHR 0x22 \<notin> set s)"

definition sq_free :: "string \<Rightarrow> bool" where
  "sq_free s = (CHR 0x27 \<notin> set s)"

section \<open>The embedded engine: relations, constraints, triggers\<close>

text \<open>
  A cell is a text or NULL (\<open>None\<close>); the code writes texts only. A column has its name,
  its NOT NULL flag and the text of its DEFAULT clause as \<open>PRAGMA table_info\<close> reports it
  (\<open>None\<close>: no default). The default texts of this code are bare words such as
  \<open>empty\<close>, which the engine reads as the string itself. A relation is a table or a view
  (\<open>rel_view\<close>), with its UNIQUE constraints (each a list of column names) and its rows in
  rowid order. The master list holds the relations in creation order, as
  \<open>sqlite_master\<close> does.
\<close>

type_synonym cell = "string option"

record column =
  col_name :: string
  col_notnull :: bool
  col_default :: "string option"

record relation =
  rel_view :: bool
  rel_columns :: "column list"
  rel_unique :: "string list list"
  rel_rows :: "cell list list"

text \<open>
  The one trigger shape the code creates:
  \<^verbatim>\<open>CREATE TRIGGER n AFTER INSERT ON t BEGIN INSERT OR IGNORE INTO f (hash) VALUES (NEW.hash); END\<close>
\<close>

record trigger =
  trg_name :: string
  trg_on :: string
  trg_into :: string

record sqlite =
  db_master :: "(string \<times> relation) list"
  db_triggers :: "trigger list"

datatype conflict = Abort | Ignore | Replace

definition column_names :: "relation \<Rightarrow> string list" where
  "column_names r = map col_name (rel_columns r)"

definition cell_of :: "relation \<Rightarrow> cell list \<Rightarrow> string \<Rightarrow> cell" where
  "cell_of r row n = (case map_of (zip (column_names r) row) n of Some c \<Rightarrow> c | None \<Rightarrow> None)"

definition make_row :: "relation \<Rightarrow> (string \<times> cell) list \<Rightarrow> cell list" where
  "make_row r asg =
     map (\<lambda>c. case map_of asg (col_name c) of Some v \<Rightarrow> v | None \<Rightarrow> col_default c)
       (rel_columns r)"

definition null_violation :: "relation \<Rightarrow> cell list \<Rightarrow> bool" where
  "null_violation r row = list_ex (\<lambda>(c, v). col_notnull c \<and> v = None) (zip (rel_columns r) row)"

text \<open>Two rows collide on a UNIQUE constraint when they agree, with no NULL, on all its columns.\<close>

definition conflicts :: "relation \<Rightarrow> cell list \<Rightarrow> cell list \<Rightarrow> bool" where
  "conflicts r new old =
     list_ex (\<lambda>u. list_all (\<lambda>n. cell_of r new n \<noteq> None \<and> cell_of r new n = cell_of r old n) u)
       (rel_unique r)"

text \<open>
  One row of an INSERT, INSERT OR IGNORE or REPLACE into a relation. The result holds the
  row when it was stored (an ignored row is not, and fires no trigger).
\<close>

definition insert_row ::
  "conflict \<Rightarrow> relation \<Rightarrow> (string \<times> cell) list \<Rightarrow> error + (relation \<times> cell list option)" where
  "insert_row cf r asg =
     (if \<not> list_all (\<lambda>(n, v). n \<in> set (column_names r)) asg then Inl OperationalError
      else
        let row = make_row r asg in
        if null_violation r row then
          (case cf of Ignore \<Rightarrow> Inr (r, None) | _ \<Rightarrow> Inl IntegrityError)
        else if list_ex (conflicts r row) (rel_rows r) then
          (case cf of
             Abort \<Rightarrow> Inl IntegrityError
           | Ignore \<Rightarrow> Inr (r, None)
           | Replace \<Rightarrow>
               Inr (r\<lparr>rel_rows := filter (\<lambda>old. \<not> conflicts r row old) (rel_rows r) @ [row]\<rparr>,
                    Some row))
        else Inr (r\<lparr>rel_rows := rel_rows r @ [row]\<rparr>, Some row))"

definition lookup_table :: "sqlite \<Rightarrow> string \<Rightarrow> error + relation" where
  "lookup_table db t =
     (case map_of (db_master db) t of
        None \<Rightarrow> Inl OperationalError
      | Some r \<Rightarrow> if rel_view r then Inl OperationalError else Inr r)"

definition store_table :: "sqlite \<Rightarrow> string \<Rightarrow> relation \<Rightarrow> sqlite" where
  "store_table db t r = db\<lparr>db_master := AList.update t r (db_master db)\<rparr>"

definition fire_trigger :: "cell \<Rightarrow> trigger \<Rightarrow> sqlite \<Rightarrow> error + sqlite" where
  "fire_trigger new_hash trg db =
     then_do (lookup_table db (trg_into trg)) (\<lambda>f.
     then_do (insert_row Ignore f [(''hash'', new_hash)]) (\<lambda>(f', stored).
     Inr (store_table db (trg_into trg) f')))"

fun fire_triggers :: "cell \<Rightarrow> trigger list \<Rightarrow> sqlite \<Rightarrow> error + sqlite" where
  "fire_triggers new_hash [] db = Inr db"
| "fire_triggers new_hash (trg # trgs) db =
     then_do (fire_trigger new_hash trg db) (fire_triggers new_hash trgs)"

definition insert_one :: "conflict \<Rightarrow> string \<Rightarrow> (string \<times> cell) list \<Rightarrow> sqlite \<Rightarrow> error + sqlite" where
  "insert_one cf t asg db =
     then_do (lookup_table db t) (\<lambda>r.
     then_do (insert_row cf r asg) (\<lambda>(r', stored).
       case stored of
         None \<Rightarrow> Inr db
       | Some row \<Rightarrow>
           fire_triggers (cell_of r' row ''hash'')
             (filter (\<lambda>trg. trg_on trg = t) (db_triggers db)) (store_table db t r')))"

text \<open>
  A statement with several rows stores them one after the other; when one of them fails the
  whole statement fails and leaves nothing behind.
\<close>

fun insert_rows :: "conflict \<Rightarrow> string \<Rightarrow> (string \<times> cell) list list \<Rightarrow> sqlite \<Rightarrow> error + sqlite" where
  "insert_rows cf t [] db = Inr db"
| "insert_rows cf t (asg # rest) db = then_do (insert_one cf t asg db) (insert_rows cf t rest)"

text \<open>\<^verbatim>\<open>DELETE FROM t WHERE col IN (v1, ..., vn)\<close>; a NULL cell is in no list.\<close>

definition delete_where_in :: "string \<Rightarrow> string \<Rightarrow> string list \<Rightarrow> sqlite \<Rightarrow> error + sqlite" where
  "delete_where_in t col vals db =
     then_do (lookup_table db t) (\<lambda>r.
       if col \<notin> set (column_names r) then Inl OperationalError
       else Inr (store_table db t
              (r\<lparr>rel_rows := filter (\<lambda>row. cell_of r row col \<notin> Some ` set vals) (rel_rows r)\<rparr>)))"

definition create_relation ::
  "bool \<Rightarrow> bool \<Rightarrow> string \<Rightarrow> column list \<Rightarrow> string list list \<Rightarrow> sqlite \<Rightarrow> error + sqlite" where
  "create_relation view if_not_exists name cols uniq db =
     (if name \<in> fst ` set (db_master db) then
        (if if_not_exists then Inr db else Inl OperationalError)
      else if \<not> distinct (map col_name cols) then Inl OperationalError
      else Inr (db\<lparr>db_master := db_master db @
              [(name, \<lparr>rel_view = view, rel_columns = cols, rel_unique = uniq, rel_rows = []\<rparr>)]\<rparr>))"

definition create_trigger :: "trigger \<Rightarrow> sqlite \<Rightarrow> error + sqlite" where
  "create_trigger trg db =
     (if trg_name trg \<in> trg_name ` set (db_triggers db) then Inl OperationalError
      else then_do (lookup_table db (trg_on trg)) (\<lambda>r.
        Inr (db\<lparr>db_triggers := db_triggers db @ [trg]\<rparr>)))"

text \<open>\<^verbatim>\<open>ALTER TABLE t ADD name TEXT NOT NULL DEFAULT d\<close>: the rows present get the default.\<close>

definition alter_table_add :: "string \<Rightarrow> column \<Rightarrow> sqlite \<Rightarrow> error + sqlite" where
  "alter_table_add t col db =
     then_do (lookup_table db t) (\<lambda>r.
       if col_name col \<in> set (column_names r) then Inl OperationalError
       else if col_notnull col \<and> col_default col = None then Inl OperationalError
       else Inr (store_table db t
              (r\<lparr>rel_columns := rel_columns r @ [col],
                 rel_rows := map (\<lambda>row. row @ [col_default col]) (rel_rows r)\<rparr>)))"

section \<open>Store-file validation (\<open>Database.is_database\<close>, \<open>Database.__init__\<close>)\<close>

text \<open>
  A file system is a partial map from paths to the bytes of the regular file stored there;
  \<open>None\<close> means that \<open>os.path.isfile\<close> is false. A byte is a \<open>char\<close>.
\<close>

type_synonym filesystem = "string \<Rightarrow> string option"

text \<open>The constant \<^verbatim>\<open>b'SQLite format 3\x00'\<close>.\<close>

definition sqlite_signature :: string where
  "sqlite_signature = ''SQLite format 3'' @ [CHR 0x00]"

definition is_database :: "filesystem \<Rightarrow> string \<Rightarrow> bool" where
  "is_database fs db =
     (case fs db of
        None \<Rightarrow> False
      | Some bytes \<Rightarrow>
          (let sz = length bytes in
           if sz = 0 then True
           else if sz < 100 then False
           else (let header = take 100 bytes in take 16 header = sqlite_signature)))"

text \<open>
  The three-way branch of \<open>Database.__init__\<close> on each path of \<open>path_list\<close>:
  a missing file is created as a store, a valid store file is checked and attached, and
  every other file goes to \<open>import_csv\<close>.
\<close>

datatype startup_action = Create_Store | Attach_Store | Import_Csv

definition startup_dispatch :: "filesystem \<Rightarrow> string \<Rightarrow> startup_action" where
  "startup_dispatch fs p =
     (if fs p = None then Create_Store
      else if is_database fs p then Attach_Store
      else Import_Csv)"

section \<open>The class \<open>Database\<close>\<close>

text \<open>
  The module \<open>gbd_tool.util\<close> is not among the sources. Its three functions that
  \<open>Database\<close> calls are parameters of the model.
\<close>

record util =
  prepend_context :: "string \<Rightarrow> string \<Rightarrow> string"
  context_from_name :: "string \<Rightarrow> string"
  make_alnum_ul :: "string \<Rightarrow> string"

text \<open>The entries of \<open>database_infos\<close> and of \<open>feature_infos\<close>.\<close>

record dbinfo =
  info_name :: string
  info_path :: string
  info_main :: bool
  info_contexts :: "string list"
  info_tables :: "string list"
  info_views :: "string list"

record feature_info =
  f_table :: string
  f_column :: string
  f_default :: "string option"
  f_virtual :: bool
  f_context :: string
  f_database :: string

text \<open>
  The object state: \<open>database_infos\<close> is an ordered dictionary, \<open>feature_infos\<close> a
  dictionary, \<open>inmemory\<close> the shared in-memory store of the tabular imports and
  \<open>connection\<close> what the cursor of the object reads and writes.
\<close>

record Database =
  database_infos :: "(string \<times> dbinfo) list"
  feature_infos :: "string \<Rightarrow> feature_info option"
  inmemory :: sqlite
  connection :: sqlite

definition basename :: "string \<Rightarrow> string" where
  "basename p = rev (takeWhile (\<lambda>c. c \<noteq> CHR ''/'') (rev p))"

subsection \<open>\<open>extract_infos\<close>\<close>

text \<open>
  The query on \<open>sqlite_master\<close> lists the tables and views whose names start neither with
  \<open>sqlite_\<close> nor with two underscores.
\<close>

definition listed :: "string \<Rightarrow> bool" where
  "listed name = (take 7 name \<noteq> ''sqlite_'' \<and> take 2 name \<noteq> ''__'')"

definition fname :: "string \<Rightarrow> string \<Rightarrow> string" where
  "fname table col = (if col = ''value'' then table else col)"

definition extract_column ::
  "string \<Rightarrow> bool \<Rightarrow> string \<Rightarrow> string \<Rightarrow> column
     \<Rightarrow> (string \<Rightarrow> feature_info option) \<Rightarrow> (string \<Rightarrow> feature_info option)" where
  "extract_column table virtual context dbname col finfos =
     (if col_name col \<noteq> ''hash'' then
        finfos(fname table (col_name col) \<mapsto>
          \<lparr>f_table = table, f_column = col_name col, f_default = col_default col,
           f_virtual = virtual, f_context = context, f_database = dbname\<rparr>)
      else finfos)"

definition extract_table ::
  "util \<Rightarrow> string \<Rightarrow> bool \<Rightarrow> string \<times> relation
     \<Rightarrow> dbinfo \<times> (string \<Rightarrow> feature_info option) \<Rightarrow> dbinfo \<times> (string \<Rightarrow> feature_info option)" where
  "extract_table u dbname all_virtual tr st =
     (let table = fst tr; r = snd tr; info = fst st; finfos = snd st;
          context = context_from_name u table;
          info1 = (if context \<notin> set (info_contexts info)
                   then info\<lparr>info_contexts := info_contexts info @ [context]\<rparr> else info);
          info2 = (if rel_view r then info1\<lparr>info_views := info_views info1 @ [table]\<rparr>
                   else info1\<lparr>info_tables := info_tables info1 @ [table]\<rparr>)
      in (info2,
          fold (extract_column table (rel_view r \<or> all_virtual) context dbname)
            (rel_columns r) finfos))"

text \<open>\<open>content\<close> is the store that \<open>sqlite3.connect(path)\<close> opens.\<close>

definition extract_infos :: "util \<Rightarrow> string \<Rightarrow> sqlite \<Rightarrow> bool \<Rightarrow> Database \<Rightarrow> Database" where
  "extract_infos u path content all_virtual self =
     (let dbname = make_alnum_ul u (basename path);
          firstdb = (length (database_infos self) = 0);
          info0 = \<lparr>info_name = dbname, info_path = path, info_main = firstdb,
                   info_contexts = [], info_tables = [], info_views = []\<rparr>;
          tables = filter (\<lambda>tr. listed (fst tr)) (db_master content);
          st = fold (extract_table u dbname all_virtual) tables (info0, feature_infos self)
      in self\<lparr>database_infos := AList.update dbname (fst st) (database_infos self),
              feature_infos := snd st\<rparr>)"

text \<open>
  Schema discovery as \<open>__init__\<close> runs it: from the empty dictionaries, \<open>extract_infos\<close>
  over each store in turn (the in-memory store last, with \<open>all_virtual\<close>). A store is
  given as its path, its content and the flag.
\<close>

definition new_database :: "sqlite \<Rightarrow> sqlite \<Rightarrow> Database" where
  "new_database mem con =
     \<lparr>database_infos = [], feature_infos = (\<lambda>f. None), inmemory = mem, connection = con\<rparr>"

definition discover :: "util \<Rightarrow> (string \<times> sqlite \<times> bool) list \<Rightarrow> Database \<Rightarrow> Database" where
  "discover u stores self =
     fold (\<lambda>s. extract_infos u (fst s) (fst (snd s)) (snd (snd s))) stores self"

subsection \<open>\<open>init_database\<close>\<close>

definition hash_text_notnull :: column where
  "hash_text_notnull = \<lparr>col_name = ''hash'', col_notnull = True, col_default = None\<rparr>"

definition value_text_notnull :: column where
  "value_text_notnull = \<lparr>col_name = ''value'', col_notnull = True, col_default = None\<rparr>"

definition plain_column :: "string \<Rightarrow> column" where
  "plain_column n = \<lparr>col_name = n, col_notnull = False, col_default = None\<rparr>"

definition hashes_of :: "relation \<Rightarrow> cell list" where
  "hashes_of r = map (\<lambda>row. cell_of r row ''hash'') (rel_rows r)"

text \<open>
  \<^verbatim>\<open>INSERT OR IGNORE INTO features (hash) SELECT DISTINCT(hash) FROM local\<close>
\<close>

definition backfill :: "string \<Rightarrow> string \<Rightarrow> sqlite \<Rightarrow> error + sqlite" where
  "backfill features local db =
     then_do (case map_of (db_master db) local of
                None \<Rightarrow> Inl OperationalError | Some l \<Rightarrow> Inr l) (\<lambda>l.
       insert_rows Ignore features (map (\<lambda>h. [(''hash'', h)]) (remdups (hashes_of l))) db)"

definition init_context :: "util \<Rightarrow> dbinfo \<Rightarrow> string \<Rightarrow> sqlite \<Rightarrow> error + sqlite" where
  "init_context u dbinfo context db =
     (let local = prepend_context u ''local'' context;
          filename = prepend_context u ''filename'' context;
          hashv = prepend_context u ''hash'' context;
          features = prepend_context u ''features'' context
      in
      then_do (if local \<notin> set (info_tables dbinfo)
               then create_relation False False local [hash_text_notnull, value_text_notnull] [] db
               else Inr db) (\<lambda>db1.
      then_do (if filename \<notin> set (info_views dbinfo)
               then create_relation True False filename [plain_column ''hash'', plain_column ''value''] [] db1
               else Inr db1) (\<lambda>db2.
      then_do (if hashv \<notin> set (info_views dbinfo)
               then create_relation True False hashv [plain_column ''hash'', plain_column ''value''] [] db2
               else Inr db2) (\<lambda>db3.
      if features \<notin> set (info_tables dbinfo) then
        then_do (create_relation False False features [hash_text_notnull] [[''hash'']] db3) (\<lambda>db4.
        then_do (backfill features local db4) (\<lambda>db5.
        create_trigger \<lparr>trg_name = features @ ''_dval'', trg_on = local, trg_into = features\<rparr> db5))
      else Inr db3))))"

fun init_contexts :: "util \<Rightarrow> dbinfo \<Rightarrow> string list \<Rightarrow> sqlite \<Rightarrow> error + sqlite" where
  "init_contexts u dbinfo [] db = Inr db"
| "init_contexts u dbinfo (c # cs) db =
     then_do (init_context u dbinfo c db) (init_contexts u dbinfo cs)"

text \<open>\<open>itertools.permutations(contexts, 2)\<close>: the ordered pairs of distinct positions.\<close>

definition permutations2 :: "'a list \<Rightarrow> ('a \<times> 'a) list" where
  "permutations2 xs =
     concat (map (\<lambda>i. map (\<lambda>j. (xs ! i, xs ! j)) (filter (\<lambda>j. j \<noteq> i) [0..<length xs]))
       [0..<length xs])"

fun init_translators :: "dbinfo \<Rightarrow> (string \<times> string) list \<Rightarrow> sqlite \<Rightarrow> error + sqlite" where
  "init_translators dbinfo [] db = Inr db"
| "init_translators dbinfo (cc # ccs) db =
     (let translator = ''translator_'' @ fst cc @ ''_'' @ snd cc in
      then_do (if translator \<notin> set (info_tables dbinfo)
               then create_relation False False translator [plain_column ''hash'', plain_column ''value''] [] db
               else Inr db) (init_translators dbinfo ccs))"

definition init_database :: "util \<Rightarrow> dbinfo \<Rightarrow> sqlite \<Rightarrow> error + sqlite" where
  "init_database u dbinfo db =
     then_do (init_contexts u dbinfo (info_contexts dbinfo) db)
       (init_translators dbinfo (permutations2 (info_contexts dbinfo)))"

subsection \<open>\<open>create_feature\<close>\<close>

text \<open>
  With a default value the feature becomes a column of the registry table of its context;
  the default text is interpolated bare after \<open>DEFAULT\<close>, and an empty text leaves the
  statement incomplete. Without one it becomes a table of its own.
\<close>

definition create_feature :: "util \<Rightarrow> string \<Rightarrow> string option \<Rightarrow> Database \<Rightarrow> error + Database" where
  "create_feature u name default_value self =
     (case default_value of
        Some d \<Rightarrow>
          (let features = prepend_context u ''features'' (context_from_name u name) in
           if d = [] then Inl OperationalError
           else
             then_do (alter_table_add features
                        \<lparr>col_name = name, col_notnull = True, col_default = Some d\<rparr> (connection self))
               (\<lambda>db. Inr (self\<lparr>connection := db\<rparr>)))
      | None \<Rightarrow>
          then_do (create_relation False True name [hash_text_notnull, value_text_notnull]
                     [[''hash'', ''value'']] (connection self))
            (\<lambda>db. Inr (self\<lparr>connection := db\<rparr>)))"

subsection \<open>\<open>insert\<close>, \<open>delete_hashes\<close>, \<open>delete_values\<close>\<close>

text \<open>Python's truth value of \<open>info['default']\<close>: \<open>None\<close> and the empty string are false.\<close>

definition truthy :: "string option \<Rightarrow> bool" where
  "truthy d = (case d of None \<Rightarrow> False | Some s \<Rightarrow> s \<noteq> [])"

text \<open>
  \<open>insert\<close> writes one row \<open>("hash", "value")\<close> per hash, the texts between double quotes.
  With no hash the statement ends after \<open>VALUES\<close> and the engine rejects it.
\<close>

definition insert_feature :: "string \<Rightarrow> string \<Rightarrow> string list \<Rightarrow> bool \<Rightarrow> Database \<Rightarrow> error + Database" where
  "insert_feature feature val hashes force self =
     (case feature_infos self feature of
        None \<Rightarrow> Inl KeyError
      | Some info \<Rightarrow>
          if hashes = [] then Inl OperationalError
          else if \<not> (dq_free val \<and> list_all dq_free hashes) then Inl Literal_Broken
          else
            let method = (if force \<and> truthy (f_default info) then Replace else Abort) in
            then_do (insert_rows method (f_table info)
                       (map (\<lambda>h. [(''hash'', Some h), (f_column info, Some val)]) hashes)
                       (connection self))
              (\<lambda>db. Inr (self\<lparr>connection := db\<rparr>)))"

text \<open>
  The list between the parentheses of \<open>IN\<close> is \<^verbatim>\<open>"', '".join(xs)\<close> between single quotes:
  for the empty \<open>xs\<close> it is the one empty text.
\<close>

definition in_list :: "string list \<Rightarrow> error + string list" where
  "in_list xs =
     (if \<not> list_all sq_free xs then Inl Literal_Broken
      else Inr (if xs = [] then [[]] else xs))"

definition delete_hashes :: "string \<Rightarrow> string list \<Rightarrow> Database \<Rightarrow> error + Database" where
  "delete_hashes feature hashes self =
     (case feature_infos self feature of
        None \<Rightarrow> Inl KeyError
      | Some info \<Rightarrow>
          (case f_default info of
             None \<Rightarrow>
               then_do (in_list hashes) (\<lambda>lits.
               then_do (delete_where_in feature ''hash'' lits (connection self))
                 (\<lambda>db. Inr (self\<lparr>connection := db\<rparr>)))
           | Some d \<Rightarrow> insert_feature feature d hashes True self))"

text \<open>
  For a feature with a default, \<open>delete_values\<close> sends a text that starts with
  \<^verbatim>\<open>UPDATE TABLE\<close>. The engine's grammar has no such statement (an update names the
  table right after \<open>UPDATE\<close>, and \<open>TABLE\<close> is a reserved word), so it raises a syntax
  error for every feature, default and list of values.
\<close>

definition delete_values :: "string \<Rightarrow> string list \<Rightarrow> Database \<Rightarrow> error + Database" where
  "delete_values feature vals self =
     (case feature_infos self feature of
        None \<Rightarrow> Inl KeyError
      | Some info \<Rightarrow>
          (case f_default info of
             None \<Rightarrow>
               then_do (in_list vals) (\<lambda>lits.
               then_do (delete_where_in feature ''value'' lits (connection self))
                 (\<lambda>db. Inr (self\<lparr>connection := db\<rparr>)))
           | Some d \<Rightarrow> Inl OperationalError))"


subsection \<open>\<open>import_csv\<close>\<close>

text \<open>
  A delimited file as \<open>csv.DictReader\<close> reads it: the header (\<open>None\<close> for an empty file)
  and the non-blank rows. A path with no readable file is \<open>None\<close>.
  \<open>import_csv\<close> sends several statements, so it returns the object as the call leaves it
  together with the exception, if any.
\<close>

record csv =
  fieldnames :: "string list option"
  csv_rows :: "string list list"

fun import_rows :: "string \<Rightarrow> string list \<Rightarrow> string list list \<Rightarrow> Database \<Rightarrow> Database \<times> error option" where
  "import_rows name header [] self = (self, None)"
| "import_rows name header (row # rest) self =
     (if length row \<noteq> length header then (self, Some TypeError)
      else if \<not> list_all sq_free row then (self, Some Literal_Broken)
      else
        case insert_rows Abort name [zip header (map Some row)] (inmemory self) of
          Inl e \<Rightarrow> (self, Some e)
        | Inr db \<Rightarrow> import_rows name header rest (self\<lparr>inmemory := db\<rparr>))"

text \<open>The name of the table of an imported file (the local \<open>name\<close>).\<close>

definition csv_table_name :: "util \<Rightarrow> string \<Rightarrow> string" where
  "csv_table_name u csvfile =
     (let file = basename csvfile in context_from_name u file @ ''_'' @ make_alnum_ul u file)"

definition import_csv :: "util \<Rightarrow> (string \<Rightarrow> csv option) \<Rightarrow> string \<Rightarrow> Database \<Rightarrow> Database \<times> error option" where
  "import_csv u files csvfile self =
     (let name = csv_table_name u csvfile
      in
      if name \<in> fst ` set (db_master (inmemory self)) then (self, None)
      else
        case files csvfile of
          None \<Rightarrow> (self, Some IOError)
        | Some f \<Rightarrow>
            (case fieldnames f of
               None \<Rightarrow> (self, Some TypeError)
             | Some header \<Rightarrow>
                 if ''hash'' \<notin> set header then (self, Some DatabaseException)
                 else
                   case create_relation False True name (map plain_column header) []
                          (inmemory self) of
                     Inl e \<Rightarrow> (self, Some e)
                   | Inr db \<Rightarrow> import_rows name header (csv_rows f) (self\<lparr>inmemory := db\<rparr>)))"

section \<open>States the claims speak about\<close>

text \<open>
  The table that \<open>create_feature\<close> makes for a feature without a default: the two NOT NULL
  columns with the UNIQUE constraint over the pair, every row two cells wide.
\<close>

definition dedicated_shape :: "relation \<Rightarrow> bool" where
  "dedicated_shape r =
     (\<not> rel_view r \<and> rel_columns r = [hash_text_notnull, value_text_notnull]
      \<and> rel_unique r = [[''hash'', ''value'']]
      \<and> list_all (\<lambda>row. length row = 2) (rel_rows r))"

definition no_trigger_on :: "string \<Rightarrow> sqlite \<Rightarrow> bool" where
  "no_trigger_on t db = list_all (\<lambda>trg. trg_on trg \<noteq> t) (db_triggers db)"

text \<open>
  A feature that is known to \<open>feature_infos\<close> as such a table of its own, as discovery
  records it (the feature is named as its table, the column is \<open>value\<close>, no default).
\<close>

definition dedicated :: "string \<Rightarrow> Database \<Rightarrow> bool" where
  "dedicated feature self =
     (case feature_infos self feature of
        None \<Rightarrow> False
      | Some info \<Rightarrow>
          f_table info = feature \<and> f_column info = ''value'' \<and> f_default info = None \<and>
          (case map_of (db_master (connection self)) feature of
             None \<Rightarrow> False | Some r \<Rightarrow> dedicated_shape r) \<and>
          no_trigger_on feature (connection self))"

definition rows_of :: "string \<Rightarrow> Database \<Rightarrow> cell list list" where
  "rows_of t self =
     (case map_of (db_master (connection self)) t of None \<Rightarrow> [] | Some r \<Rightarrow> rel_rows r)"

section \<open>Example inputs\<close>

text \<open>
  Modelled from the spec: the functions of \<open>gbd_tool.util\<close>, which is not among the
  sources. A context is the leading token of a name, up to its first underscore; a name is
  put into a context by that prefix; \<open>make_alnum_ul\<close> replaces every character that is
  not alphanumeric by an underscore. The theorems hold for every \<open>util\<close>; this one serves
  the examples.
\<close>

definition util_model :: util where
  "util_model =
     \<lparr>prepend_context = (\<lambda>f c. c @ ''_'' @ f),
      context_from_name = takeWhile (\<lambda>c. c \<noteq> CHR ''_''),
      make_alnum_ul =
        map (\<lambda>c. if c \<in> set ''abcdefghijklmnopqrstuvwxyzABCDEFGHIJKLMNOPQRSTUVWXYZ0123456789''
                 then c else CHR ''_'')\<rparr>"

definition empty_store :: sqlite where
  "empty_store = \<lparr>db_master = [], db_triggers = []\<rparr>"

text \<open>A store that holds one feature table with one row, and the object opened on it.\<close>

definition example_store :: sqlite where
  "example_store =
     \<lparr>db_master =
        [(''cnf_family'',
          \<lparr>rel_view = False, rel_columns = [hash_text_notnull, value_text_notnull],
           rel_unique = [[''hash'', ''value'']],
           rel_rows = [[Some ''a'', Some ''v1'']]\<rparr>)],
      db_triggers = []\<rparr>"

definition example_db :: Database where
  "example_db = discover util_model [(''test.db'', example_store, False)]
                  (new_database empty_store example_store)"

text \<open>
  The same store after \<open>init_database\<close> has built the scaffold of its context \<open>cnf\<close>, and
  the object opened on it.
\<close>

definition example_registry_store :: sqlite where
  "example_registry_store =
     \<lparr>db_master =
        [(''cnf_family'',
          \<lparr>rel_view = False, rel_columns = [hash_text_notnull, value_text_notnull],
           rel_unique = [[''hash'', ''value'']],
           rel_rows = [[Some ''a'', Some ''v1'']]\<rparr>),
         (''cnf_local'',
          \<lparr>rel_view = False, rel_columns = [hash_text_notnull, value_text_notnull],
           rel_unique = [], rel_rows = []\<rparr>),
         (''cnf_filename'',
          \<lparr>rel_view = True, rel_columns = [plain_column ''hash'', plain_column ''value''],
           rel_unique = [], rel_rows = []\<rparr>),
         (''cnf_hash'',
          \<lparr>rel_view = True, rel_columns = [plain_column ''hash'', plain_column ''value''],
           rel_unique = [], rel_rows = []\<rparr>),
         (''cnf_features'',
          \<lparr>rel_view = False, rel_columns = [hash_text_notnull],
           rel_unique = [[''hash'']], rel_rows = []\<rparr>)],
      db_triggers =
        [\<lparr>trg_name = ''cnf_features_dval'', trg_on = ''cnf_local'', trg_into = ''cnf_features''\<rparr>]\<rparr>"

definition example_registry :: Database where
  "example_registry = discover util_model [(''test.db'', example_registry_store, False)]
                        (new_database empty_store example_registry_store)"

text \<open>
  A store whose registry has the column \<open>cnf_dsh\<close> with the default \<open>empty\<close>, two
  registered instances, and the object opened on it.
\<close>

definition example_featured_store :: sqlite where
  "example_featured_store =
     \<lparr>db_master =
        [(''cnf_local'',
          \<lparr>rel_view = False, rel_columns = [hash_text_notnull, value_text_notnull],
           rel_unique = [],
           rel_rows = [[Some ''a'', Some ''/p/a.cnf''], [Some ''b'', Some ''/p/b.cnf'']]\<rparr>),
         (''cnf_features'',
          \<lparr>rel_view = False,
           rel_columns = [hash_text_notnull,
             \<lparr>col_name = ''cnf_dsh'', col_notnull = True, col_default = Some ''empty''\<rparr>],
           rel_unique = [[''hash'']],
           rel_rows = [[Some ''a'', Some ''d1''], [Some ''b'', Some ''d2'']]\<rparr>)],
      db_triggers =
        [\<lparr>trg_name = ''cnf_features_dval'', trg_on = ''cnf_local'', trg_into = ''cnf_features''\<rparr>]\<rparr>"

definition example_featured :: Database where
  "example_featured = discover util_model [(''test.db'', example_featured_store, False)]
                        (new_database empty_store example_featured_store)"

text \<open>Two delimited files: one with the column \<open>hash\<close>, one without.\<close>

definition example_files :: "string \<Rightarrow> csv option" where
  "example_files p =
     (if p = ''data.csv'' then
        Some \<lparr>fieldnames = Some [''hash'', ''family''], csv_rows = [[''a'', ''f1''], [''b'', ''f2'']]\<rparr>
      else if p = ''nohash.csv'' then
        Some \<lparr>fieldnames = Some [''id'', ''family''], csv_rows = [[''a'', ''f1'']]\<rparr>
      else None)"

section \<open>Properties of store-file validation\<close>

text \<open>
  C8. \<open>is_database\<close> is true exactly for a regular file that is either empty or at least
  100 bytes long with the 16-byte signature in front; in particular a file of 1 to 99 bytes
  is rejected. An existing file is attached exactly when \<open>is_database\<close> accepts it and is
  handed to the tabular import exactly when \<open>is_database\<close> rejects it.
\<close>

theorem is_database_exact:
  "(is_database fs p \<longleftrightarrow>
      (\<exists>bytes. fs p = Some bytes \<and>
         (length bytes = 0 \<or> (100 \<le> length bytes \<and> take 16 bytes = sqlite_signature))))
   \<and> (\<forall>bytes. fs p = Some bytes \<and> 0 < length bytes \<and> length bytes < 100 \<longrightarrow> \<not> is_database fs p)
   \<and> (\<forall>bytes. fs p = Some bytes \<longrightarrow>
         (startup_dispatch fs p = Attach_Store \<longleftrightarrow> is_database fs p) \<and>
         (startup_dispatch fs p = Import_Csv \<longleftrightarrow> \<not> is_database fs p))"
  by (auto simp: is_database_def startup_dispatch_def Let_def split: option.splits)

theorem is_database_exact_witness:
  "(\<lambda>p. if p = ''data.csv'' then Some ''hash,family'' else None) ''data.csv'' = Some ''hash,family''
   \<and> 0 < length ''hash,family'' \<and> length ''hash,family'' < 100
   \<and> \<not> is_database (\<lambda>p. if p = ''data.csv'' then Some ''hash,family'' else None) ''data.csv''
   \<and> startup_dispatch (\<lambda>p. if p = ''data.csv'' then Some ''hash,family'' else None) ''data.csv''
       = Import_Csv"
  using is_database_exact [of "\<lambda>p. if p = ''data.csv'' then Some ''hash,family'' else None" "''data.csv''"]
  by simp

section \<open>Inserting into a feature table of its own\<close>

lemmas eval_defs =
  example_db_def discover_def extract_infos_def extract_table_def extract_column_def
  new_database_def example_store_def empty_store_def util_model_def listed_def fname_def
  hash_text_notnull_def value_text_notnull_def plain_column_def basename_def Let_def
  dedicated_def dedicated_shape_def no_trigger_on_def rows_of_def
  insert_feature_def truthy_def dq_free_def sq_free_def then_do_def insert_one_def
  insert_row_def lookup_table_def store_table_def make_row_def null_violation_def
  conflicts_def cell_of_def column_names_def
  example_registry_def example_registry_store_def example_featured_def
  example_featured_store_def create_feature_def create_relation_def alter_table_add_def
  delete_values_def delete_hashes_def in_list_def delete_where_in_def init_database_def
  init_context_def permutations2_def backfill_def create_trigger_def hashes_of_def

lemma cell_of_dedicated [simp]:
  "rel_columns r = [hash_text_notnull, value_text_notnull] \<Longrightarrow>
     cell_of r [a, b] ''hash'' = a \<and> cell_of r [a, b] ''value'' = b"
  by (simp add: cell_of_def column_names_def hash_text_notnull_def value_text_notnull_def)

lemma conflicts_dedicated:
  "dedicated_shape r \<Longrightarrow> length old = 2 \<Longrightarrow>
     conflicts r [Some h, Some v] old \<longleftrightarrow> old = [Some h, Some v]"
  by (cases old; cases "tl old") (auto simp: dedicated_shape_def conflicts_def)

lemma insert_row_dedicated:
  assumes "dedicated_shape r"
  shows "insert_row Abort r [(''hash'', Some h), (''value'', Some v)] =
     (if [Some h, Some v] \<in> set (rel_rows r) then Inl IntegrityError
      else Inr (r\<lparr>rel_rows := rel_rows r @ [[Some h, Some v]]\<rparr>, Some [Some h, Some v]))"
proof -
  have cols: "rel_columns r = [hash_text_notnull, value_text_notnull]"
    and len: "\<forall>row \<in> set (rel_rows r). length row = 2"
    using assms by (auto simp: dedicated_shape_def list_all_iff)
  have row: "make_row r [(''hash'', Some h), (''value'', Some v)] = [Some h, Some v]"
    by (simp add: make_row_def cols hash_text_notnull_def value_text_notnull_def)
  have nn: "\<not> null_violation r [Some h, Some v]"
    by (simp add: null_violation_def cols)
  have ex: "list_ex (conflicts r [Some h, Some v]) (rel_rows r) \<longleftrightarrow> [Some h, Some v] \<in> set (rel_rows r)"
    using len conflicts_dedicated [OF assms] by (auto simp: list_ex_iff)
  show ?thesis
    by (simp add: insert_row_def Let_def row nn ex column_names_def cols
        hash_text_notnull_def value_text_notnull_def)
qed


lemma map_of_store_table [simp]:
  "map_of (db_master (store_table db t r)) = (map_of (db_master db))(t \<mapsto> r)"
  by (simp add: store_table_def update_conv')

lemma lookup_store_table [simp]:
  "lookup_table (store_table db t r) t = (if rel_view r then Inl OperationalError else Inr r)"
  by (simp add: lookup_table_def)

lemma triggers_store_table [simp]: "db_triggers (store_table db t r) = db_triggers db"
  by (simp add: store_table_def)

lemma filter_no_trigger: "no_trigger_on t db \<Longrightarrow> filter (\<lambda>trg. trg_on trg = t) (db_triggers db) = []"
  by (induction "db_triggers db" arbitrary: db) (auto simp: no_trigger_on_def list_all_iff filter_empty_conv)

lemma insert_one_dedicated:
  assumes "map_of (db_master db) t = Some r" "dedicated_shape r" "no_trigger_on t db"
  shows "insert_one Abort t [(''hash'', Some h), (''value'', Some v)] db =
     (if [Some h, Some v] \<in> set (rel_rows r) then Inl IntegrityError
      else Inr (store_table db t (r\<lparr>rel_rows := rel_rows r @ [[Some h, Some v]]\<rparr>)))"
  using assms
  by (simp add: insert_one_def then_do_def lookup_table_def insert_row_dedicated
      filter_no_trigger dedicated_shape_def)


lemma dedicated_shape_append:
  "dedicated_shape r \<Longrightarrow> dedicated_shape (r\<lparr>rel_rows := rel_rows r @ [[a, b]]\<rparr>)"
  by (simp add: dedicated_shape_def)

lemma insert_rows_dedicated_dup:
  assumes "map_of (db_master db) t = Some r" "dedicated_shape r" "no_trigger_on t db"
    "[Some h, Some v] \<in> set (rel_rows r)" "h \<in> set hashes"
  shows "insert_rows Abort t (map (\<lambda>h. [(''hash'', Some h), (''value'', Some v)]) hashes) db
           = Inl IntegrityError"
  using assms
proof (induction hashes arbitrary: db r)
  case Nil
  then show ?case by simp
next
  case (Cons g hashes)
  show ?case
  proof (cases "[Some g, Some v] \<in> set (rel_rows r)")
    case True
    then show ?thesis
      using Cons.prems by (simp add: insert_one_dedicated then_do_def)
  next
    case False
    then have gh: "g \<noteq> h" and hin: "h \<in> set hashes"
      using Cons.prems by auto
    let ?r = "r\<lparr>rel_rows := rel_rows r @ [[Some g, Some v]]\<rparr>"
    let ?db = "store_table db t ?r"
    have "insert_rows Abort t (map (\<lambda>h. [(''hash'', Some h), (''value'', Some v)]) hashes) ?db
            = Inl IntegrityError"
    proof (rule Cons.IH [of ?db ?r])
      show "map_of (db_master ?db) t = Some ?r" by simp
      show "dedicated_shape ?r" using Cons.prems(2) by (rule dedicated_shape_append)
      show "no_trigger_on t ?db" using Cons.prems(3) by (simp add: no_trigger_on_def)
      show "[Some h, Some v] \<in> set (rel_rows ?r)" using Cons.prems(4) by simp
      show "h \<in> set hashes" by (rule hin)
    qed
    then show ?thesis
      using Cons.prems False by (simp add: insert_one_dedicated then_do_def)
  qed
qed

lemma dedicatedD:
  assumes "dedicated feature self"
  obtains info r where "feature_infos self feature = Some info" "f_table info = feature"
    "f_column info = ''value''" "f_default info = None"
    "map_of (db_master (connection self)) feature = Some r" "dedicated_shape r"
    "no_trigger_on feature (connection self)" "rows_of feature self = rel_rows r"
  using assms by (auto simp: dedicated_def rows_of_def split: option.splits)

lemma insert_existing_pair_fails:
  assumes "dedicated feature self" "[Some h, Some v] \<in> set (rows_of feature self)"
    "h \<in> set hashes" "dq_free v" "list_all dq_free hashes"
  shows "insert_feature feature v hashes force self = Inl IntegrityError"
proof -
  from assms(1) obtain info r where d:
    "feature_infos self feature = Some info" "f_table info = feature"
    "f_column info = ''value''" "f_default info = None"
    "map_of (db_master (connection self)) feature = Some r" "dedicated_shape r"
    "no_trigger_on feature (connection self)" "rows_of feature self = rel_rows r"
    by (rule dedicatedD)
  have ne: "hashes \<noteq> []" using assms(3) by auto
  have "insert_rows Abort feature (map (\<lambda>h. [(''hash'', Some h), (''value'', Some v)]) hashes)
          (connection self) = Inl IntegrityError"
    using d(5,6,7) assms(2,3) d(8) by (intro insert_rows_dedicated_dup) auto
  then show ?thesis
    using d(1-4) ne assms(4,5) by (simp add: insert_feature_def truthy_def then_do_def)
qed

section \<open>Creating a feature table and discovering it\<close>



lemma connection_extract_infos [simp]:
  "connection (extract_infos u path content v self) = connection self"
  by (simp add: extract_infos_def Let_def)


section \<open>Forced insertion\<close>

text \<open>
  C10. For a feature whose default is null, \<open>insert\<close> with \<open>force=True\<close> is the same call as
  with \<open>force=False\<close>: the method is \<open>REPLACE\<close> only when force is asked for and the default
  is a non-empty text. So on a feature table of its own a forced insert of hashes, one of
  which already holds the value, fails on the UNIQUE constraint like a plain one.
\<close>

theorem insert_force_without_default:
  "(feature_infos self feature = Some info \<and> f_default info = None \<longrightarrow>
      insert_feature feature val hashes True self = insert_feature feature val hashes False self)
   \<and> (dedicated feature self \<and> [Some h, Some val] \<in> set (rows_of feature self) \<and> h \<in> set hashes
        \<and> dq_free val \<and> list_all dq_free hashes \<longrightarrow>
      insert_feature feature val hashes True self = Inl IntegrityError)"
  using insert_existing_pair_fails [of feature self h val hashes True]
  by (auto simp: insert_feature_def truthy_def)

theorem insert_force_without_default_witness:
  "feature_infos example_db ''cnf_family'' =
      Some \<lparr>f_table = ''cnf_family'', f_column = ''value'', f_default = None, f_virtual = False,
            f_context = ''cnf'', f_database = ''test_db''\<rparr>
   \<and> insert_feature ''cnf_family'' ''v2'' [''a''] True example_db
       = insert_feature ''cnf_family'' ''v2'' [''a''] False example_db
   \<and> dedicated ''cnf_family'' example_db
   \<and> [Some ''a'', Some ''v1''] \<in> set (rows_of ''cnf_family'' example_db)
   \<and> insert_feature ''cnf_family'' ''v1'' [''b'', ''a''] True example_db = Inl IntegrityError"
  using insert_force_without_default [of example_db "''cnf_family''" _ "''v2''" "[''a'']"]
        insert_force_without_default [of example_db "''cnf_family''" _ "''v1''" "[''b'', ''a'']" "''a''"]
  by (simp add: eval_defs)

section \<open>Several values for one identity\<close>





section \<open>Creating a feature twice\<close>




section \<open>Deleting by value\<close>

text \<open>
  C5, on a feature with a default. The registry of the example holds the feature
  \<open>cnf_dsh\<close> with the default \<open>empty\<close> and the value \<open>d1\<close> for the hash \<open>a\<close>.
  \<open>delete_values\<close> of \<open>d1\<close> raises the engine's syntax error; no value is overwritten.
\<close>

theorem delete_values_default_raises:
  "feature_infos example_featured ''cnf_dsh'' =
      Some \<lparr>f_table = ''cnf_features'', f_column = ''cnf_dsh'', f_default = Some ''empty'',
            f_virtual = False, f_context = ''cnf'', f_database = ''test_db''\<rparr>
   \<and> rows_of ''cnf_features'' example_featured = [[Some ''a'', Some ''d1''], [Some ''b'', Some ''d2'']]
   \<and> delete_values ''cnf_dsh'' [''d1''] example_featured = Inl OperationalError"
  by (simp add: eval_defs)

end
